theory Spec2Isabelle
  imports Main "HOL-Library.Word"
begin

section \<open>The invite link box of \<^verbatim>\<open>ui/boxes/edit_invite_link.cpp\<close>\<close>

text \<open>
  The file works on C++ \<^verbatim>\<open>int\<close> and \<^verbatim>\<open>TimeId\<close> (a 32-bit signed integer) values.
  They are modelled as 32-bit words: \<open>+\<close> and \<open>-\<close> wrap around (what the compiled code
  does where the C++ standard leaves signed overflow undefined), the comparisons of the
  source are the signed ones (\<open><s\<close>, \<open><=s\<close>), and \<open>sint\<close> reads the two's complement
  value.
\<close>

type_synonym int32 = "32 word"

subsection \<open>Constants (lines 24-26)\<close>

definition kMaxLimit :: int32 where
  "kMaxLimit = 2147483647"

definition kHour :: int32 where
  "kHour = 3600"

definition kDay :: int32 where
  "kDay = 86400"

subsection \<open>Data\<close>

text \<open>
  \<^verbatim>\<open>InviteLinkFields\<close> is declared in the header; its fields are the ones the
  designated initialiser of lines 330-337 names.
\<close>

record InviteLinkFields =
  link :: string
  label :: string
  expireDate :: int32
  usageLimit :: int32
  requestApproval :: bool
  isGroup :: bool

text \<open>
  \<^verbatim>\<open>struct State\<close> (lines 98-104). \<^verbatim>\<open>Buttons\<close> is a \<^verbatim>\<open>base::flat_map\<close> from the value
  of a radio button to the button (line 97): it holds every key once. A map is
  represented by its keys, listed in the order in which they were put in; the map
  itself keeps them ordered by value, an order the code never reads.
\<close>

record State =
  expireButtons :: "int32 list"
  usageButtons :: "int32 list"
  expireValue :: int32
  usageValue :: int32
  requestApproval :: bool

text \<open>
  The secondary box that is shown on top of the dialog, if any: the date chooser with
  its seed time (\<^verbatim>\<open>.time\<close>, line 245), or the numeric input with its initial text
  (\<open>None\<close> for the empty string, lines 267-269) and whether \<^verbatim>\<open>showError\<close> was called.
\<close>

datatype Picker =
  ChooseDateTimeBox int32
| UsageInput "int32 option" bool

text \<open>
  Everything the closures of \<^verbatim>\<open>EditInviteLinkBox\<close> capture: the input record, the
  \<^verbatim>\<open>now\<close> of line 91, the current values of the two radio button groups, the state, the
  text of the label field and the secondary box.
\<close>

record Dialog =
  data :: InviteLinkFields
  now :: int32
  expireGroup :: int32
  usageGroup :: int32
  state :: State
  labelField :: string
  shown :: "Picker option"

subsection \<open>\<^verbatim>\<open>regenerate\<close> (lines 164-213)\<close>

text \<open>
  The loop of lines 171-180 over the vector \<^verbatim>\<open>expires\<close>: the argument list is the part
  of the vector from the iterator \<^verbatim>\<open>i\<close> on, the result is that part after the loop.
  \<^verbatim>\<open>break\<close> returns the rest unchanged, \<^verbatim>\<open>continue\<close> and falling through all branches
  move to the next element, \<^verbatim>\<open>insert(i, value)\<close> puts the value before \<^verbatim>\<open>*i\<close>.
\<close>

fun scanExpires :: "int32 \<Rightarrow> int32 \<Rightarrow> int32 list \<Rightarrow> int32 list" where
  "scanExpires nw v [] = []"
| "scanExpires nw v (i # rest) =
     (if i = v then i # rest
      else if i = kMaxLimit then i # scanExpires nw v rest
      else if i = 0 \<or> v <=s nw - i then v # i # rest
      else i # scanExpires nw v rest)"

text \<open>The loop of lines 181-190 over the vector \<^verbatim>\<open>usages\<close>.\<close>

fun scanUsages :: "int32 \<Rightarrow> int32 list \<Rightarrow> int32 list" where
  "scanUsages v [] = []"
| "scanUsages v (i # rest) =
     (if i = v then i # rest
      else if i = kMaxLimit then i # scanUsages v rest
      else if i = 0 \<or> v <s i then v # i # rest
      else i # scanUsages v rest)"

definition expires :: "int32 \<Rightarrow> int32 \<Rightarrow> int32 list" where
  "expires nw v = scanExpires nw v [kMaxLimit, - kHour, - kDay, - kDay * 7, 0]"

definition usages :: "int32 \<Rightarrow> int32 list" where
  "usages v = scanUsages v [kMaxLimit, 1, 10, 100, 0]"

text \<open>
  \<^verbatim>\<open>emplace\<close> on a button map (lines 199 and 209): a key that the map holds already is
  not entered again.
\<close>

definition emplace :: "int32 \<Rightarrow> int32 list \<Rightarrow> int32 list" where
  "emplace limit buttons = (if limit \<in> set buttons then buttons else buttons @ [limit])"

text \<open>
  The loops of lines 193-202 and 203-212: starting from the cleared map (lines 191-192),
  one \<^verbatim>\<open>emplace\<close> for every element of the vector, in the order of the vector.
\<close>

definition makeButtons :: "int32 list \<Rightarrow> int32 list" where
  "makeButtons limits = foldl (\<lambda>buttons limit. emplace limit buttons) [] limits"

text \<open>
  \<^verbatim>\<open>regenerate\<close> sets both groups to the stored values, computes the vectors \<^verbatim>\<open>expires\<close>
  and \<^verbatim>\<open>usages\<close> and rebuilds both button maps from them.
  It uses the \<^verbatim>\<open>now\<close> captured when the dialog was created.

  \<^verbatim>\<open>RadiobuttonGroup::setValue\<close> is outside this file. It may run the changed callback
  of the group with the new value; called with a stored value that is not 0, the
  callbacks below store that same value again, so \<^verbatim>\<open>setValue\<close> is modelled as the
  assignment to the group.
\<close>

definition regenerate :: "Dialog \<Rightarrow> Dialog" where
  "regenerate d =
     d\<lparr>expireGroup := expireValue (state d),
       usageGroup := usageValue (state d),
       state := (state d)\<lparr>
         expireButtons := makeButtons (expires (now d) (expireValue (state d))),
         usageButtons := makeButtons (usages (usageValue (state d)))\<rparr>\<rparr>"

subsection \<open>Creating the dialog (lines 91-109, 298-305)\<close>

text \<open>
  The selections are seeded from the input record, with \<^verbatim>\<open>kMaxLimit\<close> standing for a
  zero field (lines 92 and 94); the first \<^verbatim>\<open>regenerate\<close> of line 298 builds the buttons.
  The label field is created with the label of the record as its text (line 305).
\<close>

definition EditInviteLinkBox :: "int32 \<Rightarrow> InviteLinkFields \<Rightarrow> Dialog" where
  "EditInviteLinkBox nw dt =
     (let expire = (if expireDate dt \<noteq> 0 then expireDate dt else kMaxLimit);
          usage = (if usageLimit dt \<noteq> 0 then usageLimit dt else kMaxLimit)
      in regenerate
           \<lparr>data = dt,
            now = nw,
            expireGroup = expire,
            usageGroup = usage,
            state = \<lparr>expireButtons = [], usageButtons = [],
                     expireValue = expire, usageValue = usage,
                     requestApproval = InviteLinkFields.requestApproval dt\<rparr>,
            labelField = label dt,
            shown = None\<rparr>)"

definition CreateInviteLinkBox :: "int32 \<Rightarrow> bool \<Rightarrow> Dialog" where
  "CreateInviteLinkBox nw grp =
     EditInviteLinkBox nw
       \<lparr>link = [], label = [], expireDate = 0, usageLimit = 0,
        requestApproval = False, isGroup = grp\<rparr>"

subsection \<open>The expiration group (lines 216-248)\<close>

text \<open>The seed time of the date chooser (lines 233-240); \<open>nw\<close> is the time at which the chooser opens.\<close>

definition pickerTime :: "int32 \<Rightarrow> int32 \<Rightarrow> int32" where
  "pickerTime nw v =
     (if v = kMaxLimit then nw + kDay
      else if nw <s v then v
      else if v <s 0 then nw - v
      else nw + kDay)"

text \<open>
  The changed callback of \<^verbatim>\<open>expireGroup\<close>, called with the value of the radio button that
  was chosen. A non-zero value is stored. For the value 0 the group is set back to the
  stored value (line 221) and the date chooser is shown.
\<close>

definition expireChanged :: "int32 \<Rightarrow> int32 \<Rightarrow> Dialog \<Rightarrow> Dialog" where
  "expireChanged nw v d =
     (if v \<noteq> 0 then d\<lparr>state := (state d)\<lparr>expireValue := v\<rparr>\<rparr>
      else d\<lparr>expireGroup := expireValue (state d),
             shown := Some (ChooseDateTimeBox (pickerTime nw (expireValue (state d))))\<rparr>)"

text \<open>
  A click on the radio button with value \<open>v\<close>: the group takes the value and runs its
  changed callback.
\<close>

definition selectExpire :: "int32 \<Rightarrow> int32 \<Rightarrow> Dialog \<Rightarrow> Dialog" where
  "selectExpire nw v d = expireChanged nw v (d\<lparr>expireGroup := v\<rparr>)"

text \<open>
  \<^verbatim>\<open>save\<close> of lines 223-232, the \<^verbatim>\<open>done\<close> callback of the date chooser. \<open>guard\<close> tells
  whether the dialog still exists. The early return of line 225 leaves the chooser as
  it is; \<^verbatim>\<open>closeBox\<close> of line 231 removes it.
\<close>

definition expireSave :: "int32 \<Rightarrow> bool \<Rightarrow> Dialog \<Rightarrow> Dialog" where
  "expireSave result guard d =
     (if result = 0 then d
      else (if guard then regenerate (d\<lparr>state := (state d)\<lparr>expireValue := result\<rparr>\<rparr>) else d)
             \<lparr>shown := None\<rparr>)"

subsection \<open>The usage group (lines 249-296)\<close>

definition usageChanged :: "int32 \<Rightarrow> Dialog \<Rightarrow> Dialog" where
  "usageChanged v d =
     (if v \<noteq> 0 then d\<lparr>state := (state d)\<lparr>usageValue := v\<rparr>\<rparr>
      else d\<lparr>usageGroup := usageValue (state d),
             shown := Some (UsageInput
               (if usageValue (state d) = kMaxLimit then None else Some (usageValue (state d)))
               False)\<rparr>)"

definition selectUsage :: "int32 \<Rightarrow> Dialog \<Rightarrow> Dialog" where
  "selectUsage v d = usageChanged v (d\<lparr>usageGroup := v\<rparr>)"

text \<open>\<^verbatim>\<open>input->showError()\<close>: the numeric input marks its text as wrong.\<close>

definition showError :: "Picker option \<Rightarrow> Picker option" where
  "showError p = (case p of Some (UsageInput text _) \<Rightarrow> Some (UsageInput text True) | _ \<Rightarrow> p)"

text \<open>
  \<^verbatim>\<open>save\<close> of lines 280-291; \<open>v\<close> is \<^verbatim>\<open>input->getLastText().toInt()\<close>, which is 0 for a
  text that is not a number.
\<close>

definition usageSave :: "int32 \<Rightarrow> bool \<Rightarrow> Dialog \<Rightarrow> Dialog" where
  "usageSave v guard d =
     (if v <=s 0 then d\<lparr>shown := showError (shown d)\<rparr>
      else (if guard then regenerate (d\<lparr>state := (state d)\<lparr>usageValue := v\<rparr>\<rparr>) else d)
             \<lparr>shown := None\<rparr>)"

text \<open>The cancel button of the numeric input (line 294).\<close>

definition usageCancel :: "Dialog \<Rightarrow> Dialog" where
  "usageCancel d = d\<lparr>shown := None\<rparr>"

text \<open>
  Modelled from the spec: the cancel button of the date chooser belongs to
  \<^verbatim>\<open>ChooseDateTimeBox\<close> (\<^verbatim>\<open>ui/boxes/choose_date_time.cpp\<close>), which is not part of this
  file. The chooser \<^emph>\<open>is dismissed without calling back\<close>: it goes away and nothing of
  the dialog changes.
\<close>

definition expireCancel :: "Dialog \<Rightarrow> Dialog" where
  "expireCancel d = d\<lparr>shown := None\<rparr>"

subsection \<open>Approval toggle and usage section (lines 117-118, 314)\<close>

text \<open>The state follows the toggle of the settings button (line 118).\<close>

definition toggleApproval :: "bool \<Rightarrow> Dialog \<Rightarrow> Dialog" where
  "toggleApproval b d = d\<lparr>state := (state d)\<lparr>requestApproval := b\<rparr>\<rparr>"

text \<open>\<^verbatim>\<open>usagesSlide\<close> is shown exactly when approval is not requested (line 314).\<close>

definition usagesSlide :: "Dialog \<Rightarrow> bool" where
  "usagesSlide d = (\<not> requestApproval (state d))"

subsection \<open>Commit (lines 320-338)\<close>

text \<open>
  The handler of the save button builds the record passed to \<^verbatim>\<open>done\<close>; \<open>nw\<close> is
  \<^verbatim>\<open>base::unixtime::now()\<close> at that moment.
\<close>

definition commitExpireDate :: "int32 \<Rightarrow> int32 \<Rightarrow> int32" where
  "commitExpireDate nw v =
     (if v = kMaxLimit then 0
      else if v <s 0 then nw - v
      else v)"

definition commitUsageLimit :: "int32 \<Rightarrow> int32" where
  "commitUsageLimit v = (if v = kMaxLimit then 0 else v)"

definition commit :: "int32 \<Rightarrow> Dialog \<Rightarrow> InviteLinkFields" where
  "commit nw d =
     \<lparr>link = link (data d),
      label = labelField d,
      expireDate = commitExpireDate nw (expireValue (state d)),
      usageLimit = commitUsageLimit (usageValue (state d)),
      requestApproval = requestApproval (state d),
      isGroup = isGroup (data d)\<rparr>"

subsection \<open>Runs of the dialog\<close>

text \<open>
  What can happen to an open dialog: a radio button of either group is chosen, a
  secondary box confirms or is cancelled, the approval button is toggled. Events that
  depend on the clock or on the dialog being alive carry that information.
\<close>

datatype Event =
  SelectExpire int32 int32
| SelectUsage int32
| DateDone int32 bool
| DateCancel
| UsageSubmit int32 bool
| UsageCancel
| ToggleApproval bool

fun step :: "Dialog \<Rightarrow> Event \<Rightarrow> Dialog" where
  "step d (SelectExpire nw v) = selectExpire nw v d"
| "step d (SelectUsage v) = selectUsage v d"
| "step d (DateDone result guard) = expireSave result guard d"
| "step d DateCancel = expireCancel d"
| "step d (UsageSubmit v guard) = usageSave v guard d"
| "step d UsageCancel = usageCancel d"
| "step d (ToggleApproval b) = toggleApproval b d"

definition run :: "Dialog \<Rightarrow> Event list \<Rightarrow> Dialog" where
  "run d evs = foldl step d evs"

text \<open>
  The stored selections are not the value 0 of the custom buttons, and each group shows
  the stored selection.
\<close>

definition stored_ok :: "Dialog \<Rightarrow> bool" where
  "stored_ok d =
     (expireValue (state d) \<noteq> 0 \<and> usageValue (state d) \<noteq> 0 \<and>
      expireGroup d = expireValue (state d) \<and> usageGroup d = usageValue (state d))"

section \<open>Properties\<close>

lemmas limit_defs = kMaxLimit_def kHour_def kDay_def

lemmas signed_cmp = word_sle_eq word_sless_alt

lemmas dialog_defs = EditInviteLinkBox_def CreateInviteLinkBox_def regenerate_def
  selectExpire_def expireChanged_def selectUsage_def usageChanged_def
  expireSave_def usageSave_def usageCancel_def expireCancel_def toggleApproval_def
  showError_def makeButtons_def emplace_def

subsection \<open>The button maps\<close>

text \<open>A vector without repetition gives a map with exactly its elements as keys, in its order.\<close>

lemma foldl_emplace_distinct:
  "distinct (buttons @ limits) \<Longrightarrow>
     foldl (\<lambda>buttons limit. emplace limit buttons) buttons limits = buttons @ limits"
  by (induction limits arbitrary: buttons) (simp_all add: emplace_def)

lemma makeButtons_distinct:
  "distinct limits \<Longrightarrow> makeButtons limits = limits"
  using foldl_emplace_distinct [of "[]" limits] by (simp add: makeButtons_def)

text \<open>Whatever the vector, the map has every element of the vector as a key, once.\<close>

lemma foldl_emplace_keys:
  "distinct buttons \<Longrightarrow>
     distinct (foldl (\<lambda>buttons limit. emplace limit buttons) buttons limits) \<and>
     set (foldl (\<lambda>buttons limit. emplace limit buttons) buttons limits) = set buttons \<union> set limits"
  by (induction limits arbitrary: buttons) (auto simp add: emplace_def)

lemma makeButtons_keys:
  "distinct (makeButtons limits) \<and> set (makeButtons limits) = set limits"
  using foldl_emplace_keys [of "[]" limits] by (simp add: makeButtons_def)

subsection \<open>The expiration ladder\<close>









text \<open>
  C2. The claim: the ladder holds the stored value once and every preset once, and has
  as many entries as there are presets when the stored value is a preset. The code, at
  the clock value 1700000000 and the stored value \<open>- 86400\<close> (the one day preset): the
  scan reaches \<open>- 3600\<close> first, where \<^verbatim>\<open>now + 3600 >= -86400\<close> holds, and inserts the
  value there, before the test of line 172 can meet the preset itself. The vector
  \<^verbatim>\<open>expires\<close> has six entries and holds \<open>- 86400\<close> twice. \<^verbatim>\<open>regenerate\<close> runs with this
  clock and this stored value when, in a new dialog, the one day button is chosen and
  a custom usage value is saved afterwards: the dialog after these events is what
  \<^verbatim>\<open>regenerate\<close> makes of it. (The button map, which holds a key once, then has
  five keys.)
\<close>

theorem expires_one_day_twice:
  "expires 1700000000 (- 86400) = [kMaxLimit, - 86400, - 3600, - 86400, - 604800, 0] \<and>
   \<not> distinct (expires 1700000000 (- 86400)) \<and>
   count_list (expires 1700000000 (- 86400)) (- 86400) = 2 \<and>
   length (expires 1700000000 (- 86400)) = 6 \<and>
   now (run (CreateInviteLinkBox 1700000000 True)
       [SelectExpire 1700000060 (- 86400), SelectUsage 0, UsageSubmit 50 True]) = 1700000000 \<and>
   expireValue (state (run (CreateInviteLinkBox 1700000000 True)
       [SelectExpire 1700000060 (- 86400), SelectUsage 0, UsageSubmit 50 True])) = - 86400 \<and>
   run (CreateInviteLinkBox 1700000000 True)
       [SelectExpire 1700000060 (- 86400), SelectUsage 0, UsageSubmit 50 True]
     = regenerate (run (CreateInviteLinkBox 1700000000 True)
       [SelectExpire 1700000060 (- 86400), SelectUsage 0, UsageSubmit 50 True]) \<and>
   length (expireButtons (state (run (CreateInviteLinkBox 1700000000 True)
       [SelectExpire 1700000060 (- 86400), SelectUsage 0, UsageSubmit 50 True]))) = 5"
  by (simp add: expires_def usages_def limit_defs run_def dialog_defs signed_cmp)

subsection \<open>The usage ladder\<close>

text \<open>
  The loop over \<^verbatim>\<open>usages\<close> in closed form: a value equal to one of the presets
  \<^verbatim>\<open>kMaxLimit\<close>, 1, 10, 100 leaves the vector as it is; any other value goes before the
  first of 1, 10, 100 that is greater, and before the final 0 when none is.
\<close>

lemma usages_closed_form:
  "usages v =
     (if v = kMaxLimit \<or> v = 1 \<or> v = 10 \<or> v = 100 then [kMaxLimit, 1, 10, 100, 0]
      else if v <s 1 then [kMaxLimit, v, 1, 10, 100, 0]
      else if v <s 10 then [kMaxLimit, 1, v, 10, 100, 0]
      else if v <s 100 then [kMaxLimit, 1, 10, v, 100, 0]
      else [kMaxLimit, 1, 10, 100, v, 0])"
  by (auto simp add: usages_def limit_defs signed_cmp)

text \<open>
  For every stored value but 0 the usage ladder has no repetition and holds the value
  and every preset.
\<close>

lemma usages_contains_all:
  "v \<noteq> 0 \<Longrightarrow> distinct (usages v) \<and> set (usages v) = insert v {kMaxLimit, 1, 10, 100, 0}"
  by (auto simp add: usages_closed_form limit_defs signed_cmp)

text \<open>
  C3. Usage ladder \<open>[kMaxLimit, 1, 10, 100, 0]\<close>: the stored value 50 gives
  \<open>[kMaxLimit, 1, 10, 50, 100, 0]\<close> (50 is put before 100, the first preset greater
  than it) and the stored value 200 gives \<open>[kMaxLimit, 1, 10, 100, 200, 0]\<close> (no preset
  is greater, so 200 is put before the final 0). In general a value that is none of
  \<^verbatim>\<open>kMaxLimit\<close>, 1, 10, 100 is put before the first of 1, 10, 100 that is greater, and
  before the final 0 when none is.
\<close>

theorem usages_custom_value:
  "usages 50 = [kMaxLimit, 1, 10, 50, 100, 0] \<and>
   usages 200 = [kMaxLimit, 1, 10, 100, 200, 0] \<and>
   usages v =
     (if v = kMaxLimit \<or> v = 1 \<or> v = 10 \<or> v = 100 then [kMaxLimit, 1, 10, 100, 0]
      else if v <s 1 then [kMaxLimit, v, 1, 10, 100, 0]
      else if v <s 10 then [kMaxLimit, 1, v, 10, 100, 0]
      else if v <s 100 then [kMaxLimit, 1, 10, v, 100, 0]
      else [kMaxLimit, 1, 10, 100, v, 0])"
proof -
  have "usages 50 = [kMaxLimit, 1, 10, 50, 100, 0]"
    and "usages 200 = [kMaxLimit, 1, 10, 100, 200, 0]"
    by (simp_all add: usages_def limit_defs signed_cmp)
  then show ?thesis
    using usages_closed_form [of v] by simp
qed

subsection \<open>Commit\<close>

text \<open>
  C4. The record built by the save button: the expiration selection \<^verbatim>\<open>kMaxLimit\<close>
  becomes 0, a negative selection \<open>v\<close> becomes \<open>nw - v\<close> for the time \<open>nw\<close> of the commit,
  any other selection is passed on unchanged; the usage selection \<^verbatim>\<open>kMaxLimit\<close> becomes
  0 and any other is passed on unchanged. Choosing the one hour preset (at any time
  \<open>t\<close>) and committing at time 1000 gives the expiration date 4600.
\<close>

theorem commit_encoding:
  "expireDate (commit nw d) =
     (if expireValue (state d) = kMaxLimit then 0
      else if expireValue (state d) <s 0 then nw - expireValue (state d)
      else expireValue (state d)) \<and>
   usageLimit (commit nw d) =
     (if usageValue (state d) = kMaxLimit then 0 else usageValue (state d)) \<and>
   expireDate (commit 1000 (selectExpire t (- 3600) d)) = 4600"
  by (simp add: commit_def commitExpireDate_def commitUsageLimit_def selectExpire_def
      expireChanged_def limit_defs signed_cmp)

subsection \<open>The seed of the date chooser\<close>

text \<open>
  C5, as the claim states it, fails for a stored absolute time that is not in the
  future: at the clock value 1000 the stored value 500 is non-negative and is not
  \<^verbatim>\<open>kMaxLimit\<close>, and the chooser is seeded with \<open>1000 + kDay = 87400\<close>, not with 500.
\<close>

theorem pickerTime_past_time:
  "0 <=s (500 :: int32) \<and> (500 :: int32) \<noteq> kMaxLimit \<and>
   expireValue (state (EditInviteLinkBox 900
       \<lparr>link = ''t.me/+abc'', label = [], expireDate = 500, usageLimit = 0,
        requestApproval = False, isGroup = True\<rparr>)) = 500 \<and>
   shown (selectExpire 1000 0 (EditInviteLinkBox 900
       \<lparr>link = ''t.me/+abc'', label = [], expireDate = 500, usageLimit = 0,
        requestApproval = False, isGroup = True\<rparr>)) = Some (ChooseDateTimeBox 87400) \<and>
   pickerTime 1000 500 \<noteq> 500"
  by (simp add: pickerTime_def limit_defs dialog_defs signed_cmp)

text \<open>
  C5, amended. When the custom expiration button is chosen at time \<open>nw\<close>, the date
  chooser is seeded with
  \<^item> \<open>nw + kDay\<close> if the stored value is \<^verbatim>\<open>kMaxLimit\<close>;
  \<^item> the stored value if it is not \<^verbatim>\<open>kMaxLimit\<close> and is later than \<open>nw\<close>;
  \<^item> \<open>nw\<close> minus the stored value if that is negative and not later than \<open>nw\<close>, which
    is \<open>nw\<close> plus its absolute value in 32-bit arithmetic;
  \<^item> \<open>nw + kDay\<close> if the stored value is non-negative and not later than \<open>nw\<close>.
\<close>

theorem pickerTime_seed:
  "(expireValue (state d) = kMaxLimit \<longrightarrow>
      shown (selectExpire nw 0 d) = Some (ChooseDateTimeBox (nw + kDay))) \<and>
   (expireValue (state d) \<noteq> kMaxLimit \<longrightarrow> nw <s expireValue (state d) \<longrightarrow>
      shown (selectExpire nw 0 d) = Some (ChooseDateTimeBox (expireValue (state d)))) \<and>
   (\<not> nw <s expireValue (state d) \<longrightarrow> expireValue (state d) <s 0 \<longrightarrow>
      shown (selectExpire nw 0 d) = Some (ChooseDateTimeBox (nw - expireValue (state d))) \<and>
      nw - expireValue (state d) = word_of_int (sint nw + \<bar>sint (expireValue (state d))\<bar>)) \<and>
   (\<not> nw <s expireValue (state d) \<longrightarrow> 0 <=s expireValue (state d) \<longrightarrow>
      shown (selectExpire nw 0 d) = Some (ChooseDateTimeBox (nw + kDay)))"
  by (auto simp add: selectExpire_def expireChanged_def pickerTime_def signed_cmp limit_defs)

theorem pickerTime_seed_witness:
  "expireValue (state (CreateInviteLinkBox 900 True)) = kMaxLimit \<and>
   shown (selectExpire 1000 0 (CreateInviteLinkBox 900 True)) = Some (ChooseDateTimeBox 87400) \<and>
   expireValue (state (selectExpire 950 5000 (CreateInviteLinkBox 900 True))) \<noteq> kMaxLimit \<and>
   1000 <s expireValue (state (selectExpire 950 5000 (CreateInviteLinkBox 900 True))) \<and>
   shown (selectExpire 1000 0 (selectExpire 950 5000 (CreateInviteLinkBox 900 True)))
     = Some (ChooseDateTimeBox 5000) \<and>
   \<not> 1000 <s expireValue (state (selectExpire 950 (- 3600) (CreateInviteLinkBox 900 True))) \<and>
   expireValue (state (selectExpire 950 (- 3600) (CreateInviteLinkBox 900 True))) <s 0 \<and>
   shown (selectExpire 1000 0 (selectExpire 950 (- 3600) (CreateInviteLinkBox 900 True)))
     = Some (ChooseDateTimeBox 4600) \<and>
   \<not> 1000 <s expireValue (state (selectExpire 950 500 (CreateInviteLinkBox 900 True))) \<and>
   0 <=s expireValue (state (selectExpire 950 500 (CreateInviteLinkBox 900 True))) \<and>
   shown (selectExpire 1000 0 (selectExpire 950 500 (CreateInviteLinkBox 900 True)))
     = Some (ChooseDateTimeBox 87400)"
  using pickerTime_seed [of "CreateInviteLinkBox 900 True" 1000]
    pickerTime_seed [of "selectExpire 950 5000 (CreateInviteLinkBox 900 True)" 1000]
    pickerTime_seed [of "selectExpire 950 (- 3600) (CreateInviteLinkBox 900 True)" 1000]
    pickerTime_seed [of "selectExpire 950 500 (CreateInviteLinkBox 900 True)" 1000]
  by (simp add: limit_defs dialog_defs signed_cmp)

subsection \<open>Confirming a secondary box\<close>

text \<open>
  C6. A custom usage value that is not positive (0, which is also what a text that is
  not a number gives, or a negative number) changes neither the state nor the usage
  group, and the numeric input stays shown, now marked as wrong. The stored usage value
  changes only for a positive value; with the dialog alive, a positive value is stored,
  the buttons are built again by \<^verbatim>\<open>regenerate\<close> and the input is closed.
\<close>

theorem usageSave_validation:
  "(v <=s 0 \<longrightarrow>
      state (usageSave v guard d) = state d \<and>
      usageGroup (usageSave v guard d) = usageGroup d \<and>
      (shown d = Some (UsageInput text err) \<longrightarrow>
         shown (usageSave v guard d) = Some (UsageInput text True))) \<and>
   (usageValue (state (usageSave v guard d)) \<noteq> usageValue (state d) \<longrightarrow> 0 <s v) \<and>
   (0 <s v \<longrightarrow>
      usageSave v True d = (regenerate (d\<lparr>state := (state d)\<lparr>usageValue := v\<rparr>\<rparr>))\<lparr>shown := None\<rparr> \<and>
      usageValue (state (usageSave v True d)) = v \<and>
      usageButtons (state (usageSave v True d)) = usages v \<and>
      usageGroup (usageSave v True d) = v \<and>
      shown (usageSave v True d) = None)"
proof -
  have "makeButtons (usages v) = usages v" if "0 <s v"
  proof -
    have "v \<noteq> 0" using that by (auto simp add: signed_cmp)
    then show ?thesis by (simp add: usages_contains_all makeButtons_distinct)
  qed
  then show ?thesis
    by (auto simp add: usageSave_def showError_def regenerate_def signed_cmp)
qed

theorem usageSave_validation_witness:
  "(0 :: int32) <=s 0 \<and>
   shown (selectUsage 0 (CreateInviteLinkBox 900 True)) = Some (UsageInput None False) \<and>
   state (usageSave 0 True (selectUsage 0 (CreateInviteLinkBox 900 True)))
     = state (selectUsage 0 (CreateInviteLinkBox 900 True)) \<and>
   shown (usageSave 0 True (selectUsage 0 (CreateInviteLinkBox 900 True)))
     = Some (UsageInput None True) \<and>
   (- 5 :: int32) <=s 0 \<and>
   state (usageSave (- 5) True (selectUsage 0 (CreateInviteLinkBox 900 True)))
     = state (selectUsage 0 (CreateInviteLinkBox 900 True)) \<and>
   shown (usageSave (- 5) True (selectUsage 0 (CreateInviteLinkBox 900 True)))
     = Some (UsageInput None True) \<and>
   (0 :: int32) <s 50 \<and>
   usageValue (state (usageSave 50 True (selectUsage 0 (CreateInviteLinkBox 900 True))))
     \<noteq> usageValue (state (selectUsage 0 (CreateInviteLinkBox 900 True))) \<and>
   usageValue (state (usageSave 50 True (selectUsage 0 (CreateInviteLinkBox 900 True)))) = 50 \<and>
   usageButtons (state (usageSave 50 True (selectUsage 0 (CreateInviteLinkBox 900 True))))
     = [kMaxLimit, 1, 10, 50, 100, 0] \<and>
   shown (usageSave 50 True (selectUsage 0 (CreateInviteLinkBox 900 True))) = None"
  using usageSave_validation [of 0 True "selectUsage 0 (CreateInviteLinkBox 900 True)" None False]
    usageSave_validation [of "- 5" True "selectUsage 0 (CreateInviteLinkBox 900 True)" None False]
    usageSave_validation [of 50 True "selectUsage 0 (CreateInviteLinkBox 900 True)" None False]
  by (simp add: limit_defs dialog_defs usages_def signed_cmp)

text \<open>
  C7, as the claim states it, fails in its last part: a confirmation with the time 0
  does not end the interaction. With the date chooser open on a new dialog, \<^verbatim>\<open>save\<close>
  called with 0 returns at line 225, before \<^verbatim>\<open>closeBox\<close>, and the chooser is still
  shown; a confirmation with the time 2000 closes it.
\<close>

theorem expireSave_null_keeps_chooser:
  "shown (selectExpire 1000 0 (CreateInviteLinkBox 900 True)) = Some (ChooseDateTimeBox 87400) \<and>
   shown (expireSave 0 True (selectExpire 1000 0 (CreateInviteLinkBox 900 True)))
     = Some (ChooseDateTimeBox 87400) \<and>
   shown (expireSave 0 True (selectExpire 1000 0 (CreateInviteLinkBox 900 True))) \<noteq> None \<and>
   shown (expireSave 2000 True (selectExpire 1000 0 (CreateInviteLinkBox 900 True))) = None"
  by (simp add: limit_defs dialog_defs pickerTime_def signed_cmp)

text \<open>
  C7, amended. When the date chooser confirms with the time 0, nothing changes: the
  stored expiration selection, the groups and the buttons stay as they are (no
  \<^verbatim>\<open>regenerate\<close>), and the chooser is not closed.
\<close>

theorem expireSave_null_no_change:
  "expireSave 0 guard d = d"
  by (simp add: expireSave_def)

subsection \<open>The approval toggle\<close>

text \<open>
  C8. Toggling the approval button changes the approval flag of the state and nothing
  else: the stored usage value, the usage buttons and the usage group stay. With
  approval on, the usage section is hidden; toggled off again, the section is shown
  with the same stored usage value, and the dialog is the one that toggling off alone
  gives.
\<close>

theorem toggleApproval_frame:
  "(toggleApproval b d)\<lparr>state := state d\<rparr> = d \<and>
   (state (toggleApproval b d))\<lparr>requestApproval := requestApproval (state d)\<rparr> = state d \<and>
   usageValue (state (toggleApproval b d)) = usageValue (state d) \<and>
   usageButtons (state (toggleApproval b d)) = usageButtons (state d) \<and>
   usageGroup (toggleApproval b d) = usageGroup d \<and>
   \<not> usagesSlide (toggleApproval True d) \<and>
   usagesSlide (toggleApproval False (toggleApproval True d)) \<and>
   usageValue (state (toggleApproval False (toggleApproval True d))) = usageValue (state d) \<and>
   toggleApproval False (toggleApproval True d) = toggleApproval False d"
  by (simp add: toggleApproval_def usagesSlide_def)

subsection \<open>The custom buttons and the stored selections\<close>

text \<open>
  \<open>stored_ok\<close> holds when the dialog is created and is kept by every event.
\<close>

lemma stored_ok_init: "stored_ok (EditInviteLinkBox nw dt)"
  by (simp add: stored_ok_def EditInviteLinkBox_def regenerate_def Let_def limit_defs)

lemma stored_ok_step: "stored_ok d \<Longrightarrow> stored_ok (step d ev)"
  by (cases ev) (auto simp add: stored_ok_def dialog_defs signed_cmp)

lemma stored_ok_run: "stored_ok d \<Longrightarrow> stored_ok (run d evs)"
  unfolding run_def
  by (induction evs arbitrary: d) (simp_all add: stored_ok_step)

lemma cancel_after_trigger:
  assumes "stored_ok d"
  shows "expireCancel (selectExpire nw 0 d) = d\<lparr>shown := None\<rparr>"
    and "usageCancel (selectUsage 0 d) = d\<lparr>shown := None\<rparr>"
  using assms by (simp_all add: stored_ok_def dialog_defs)

text \<open>
  C9. Choosing the custom button (value 0) of either group leaves the state as it is,
  sets the group back to the stored selection and shows the secondary box. In every
  dialog that a sequence of events leads to, cancelling the secondary box after that
  gives back the dialog as it was before the button was chosen, with no secondary box
  shown. In every such dialog the stored expiration and usage selections are not 0,
  and each group shows the stored selection.
\<close>

theorem trigger_never_stored:
  "state (selectExpire nw 0 d) = state d \<and>
   expireGroup (selectExpire nw 0 d) = expireValue (state d) \<and>
   shown (selectExpire nw 0 d) = Some (ChooseDateTimeBox (pickerTime nw (expireValue (state d)))) \<and>
   state (selectUsage 0 d) = state d \<and>
   usageGroup (selectUsage 0 d) = usageValue (state d) \<and>
   shown (selectUsage 0 d) =
     Some (UsageInput (if usageValue (state d) = kMaxLimit then None else Some (usageValue (state d))) False) \<and>
   expireCancel (selectExpire nw 0 (run (EditInviteLinkBox t dt) evs))
     = (run (EditInviteLinkBox t dt) evs)\<lparr>shown := None\<rparr> \<and>
   usageCancel (selectUsage 0 (run (EditInviteLinkBox t dt) evs))
     = (run (EditInviteLinkBox t dt) evs)\<lparr>shown := None\<rparr> \<and>
   expireValue (state (run (EditInviteLinkBox t dt) evs)) \<noteq> 0 \<and>
   usageValue (state (run (EditInviteLinkBox t dt) evs)) \<noteq> 0 \<and>
   expireGroup (run (EditInviteLinkBox t dt) evs) = expireValue (state (run (EditInviteLinkBox t dt) evs)) \<and>
   usageGroup (run (EditInviteLinkBox t dt) evs) = usageValue (state (run (EditInviteLinkBox t dt) evs))"
proof -
  have ok: "stored_ok (run (EditInviteLinkBox t dt) evs)"
    by (rule stored_ok_run [OF stored_ok_init])
  have "state (selectExpire nw 0 d) = state d"
    and "expireGroup (selectExpire nw 0 d) = expireValue (state d)"
    and "shown (selectExpire nw 0 d) = Some (ChooseDateTimeBox (pickerTime nw (expireValue (state d))))"
    by (simp_all add: selectExpire_def expireChanged_def)
  moreover have "state (selectUsage 0 d) = state d"
    and "usageGroup (selectUsage 0 d) = usageValue (state d)"
    and "shown (selectUsage 0 d) =
      Some (UsageInput (if usageValue (state d) = kMaxLimit then None else Some (usageValue (state d))) False)"
    by (simp_all add: selectUsage_def usageChanged_def)
  ultimately show ?thesis
    using ok cancel_after_trigger [OF ok] by (simp add: stored_ok_def)
qed

subsection \<open>A record without limits\<close>

lemma max_int32: "w <=s kMaxLimit"
proof -
  have "sint w < 2 ^ (LENGTH(32) - 1)" by (rule sint_lt)
  then show ?thesis by (simp add: signed_cmp limit_defs)
qed

text \<open>
  C10. For an input record with \<^verbatim>\<open>expireDate = 0\<close> and \<^verbatim>\<open>usageLimit = 0\<close> both stored
  selections are \<^verbatim>\<open>kMaxLimit\<close>, which is \<open>2 ^ 31 - 1\<close>, the greatest value of the type;
  committing the new dialog, at any time, gives the input record back: expiration date
  0, usage limit 0, the same link, label, approval flag and group flag.
\<close>

theorem unlimited_round_trip:
  "expireDate dt = 0 \<Longrightarrow> usageLimit dt = 0 \<Longrightarrow>
     expireValue (state (EditInviteLinkBox nw dt)) = kMaxLimit \<and>
     usageValue (state (EditInviteLinkBox nw dt)) = kMaxLimit \<and>
     sint kMaxLimit = 2 ^ 31 - 1 \<and>
     (\<forall>w :: int32. w <=s kMaxLimit) \<and>
     commit nw' (EditInviteLinkBox nw dt) = dt"
  by (cases dt) (simp add: max_int32 EditInviteLinkBox_def regenerate_def commit_def
      commitExpireDate_def commitUsageLimit_def, simp add: limit_defs)

theorem unlimited_round_trip_witness:
  "expireDate \<lparr>link = ''t.me/+abc'', label = ''friends'', expireDate = 0, usageLimit = 0,
       requestApproval = True, isGroup = False\<rparr> = 0 \<and>
   usageLimit \<lparr>link = ''t.me/+abc'', label = ''friends'', expireDate = 0, usageLimit = 0,
       requestApproval = True, isGroup = False\<rparr> = 0 \<and>
   expireValue (state (EditInviteLinkBox 900
     \<lparr>link = ''t.me/+abc'', label = ''friends'', expireDate = 0, usageLimit = 0,
       requestApproval = True, isGroup = False\<rparr>)) = 2147483647 \<and>
   usageValue (state (EditInviteLinkBox 900
     \<lparr>link = ''t.me/+abc'', label = ''friends'', expireDate = 0, usageLimit = 0,
       requestApproval = True, isGroup = False\<rparr>)) = 2147483647 \<and>
   commit 1000 (EditInviteLinkBox 900
     \<lparr>link = ''t.me/+abc'', label = ''friends'', expireDate = 0, usageLimit = 0,
       requestApproval = True, isGroup = False\<rparr>)
     = \<lparr>link = ''t.me/+abc'', label = ''friends'', expireDate = 0, usageLimit = 0,
       requestApproval = True, isGroup = False\<rparr>"
  using unlimited_round_trip [of "\<lparr>link = ''t.me/+abc'', label = ''friends'', expireDate = 0,
       usageLimit = 0, requestApproval = True, isGroup = False\<rparr>" 900 1000]
  by (simp add: limit_defs)

end
